theory Spec2Isabelle
  imports Complex_Main
begin

section \<open>Structural geometry helpers (functions_MA.py)\<close>

text \<open>
  Python floats are modelled as real numbers, so every statement below is one of exact
  arithmetic. A vertex is a pair (easting, northing), the row \<open>[Lon, Lat]\<close> of the
  array that the source returns.
\<close>

type_synonym vertex = "real \<times> real"

text \<open>
  \<^verbatim>\<open>
  def roof_edges2D(mult = 1, Lat = 0, Lon = 0):
      offsetLon = 681437.8 -Lon
      offsetLat = 248919.2 -Lat
      NLon = (681443.103 - offsetLon)*mult
      ...
      edges = numpy.array([[NLon, NLat],[E_1,N_1],[E_2,N_2],[WLon,WLat],
                           [SLon,SLat],[E_5,N_5],[E_6,N_6],[ELon,ELat]])
      return edges
  \<close>
\<close>

definition roof_edges2D :: "real \<Rightarrow> real \<Rightarrow> real \<Rightarrow> vertex list" where
  "roof_edges2D mult Lat Lon =
     (let offsetLon = 681437.8 - Lon;
          offsetLat = 248919.2 - Lat;
          NLon = (681443.103 - offsetLon) * mult;
          NLat = (248954.576 - offsetLat) * mult;
          ELon = (681462.783 - offsetLon) * mult;
          ELat = (248942.503 - offsetLat) * mult;
          E_1 = (681429.922 - offsetLon) * mult;
          N_1 = (248934.161 - offsetLat) * mult;
          E_2 = (681431.376 - offsetLon) * mult;
          N_2 = (248912.610 - offsetLat) * mult;
          WLon = (681426.233 - offsetLon) * mult;
          WLat = (248895.830 - offsetLat) * mult;
          SLon = (681447.497 - offsetLon) * mult;
          SLat = (248889.417 - offsetLat) * mult;
          E_5 = (681460.536 - offsetLon) * mult;
          N_5 = (248909.601 - offsetLat) * mult;
          E_6 = (681459.040 - offsetLon) * mult;
          N_6 = (248927.087 - offsetLat) * mult
      in [(NLon, NLat), (E_1, N_1), (E_2, N_2), (WLon, WLat),
          (SLon, SLat), (E_5, N_5), (E_6, N_6), (ELon, ELat)])"




section \<open>DAS channel mapping (custom_util.py)\<close>

subsection \<open>Errors and the numeric library\<close>

text \<open>
  Every exception the modelled code can raise is a value; a fallible computation returns
  \<open>py_error + 'a\<close> with \<open>Inl\<close> the exception.
\<close>

datatype py_error =
  FileNotFoundError | ValueError | IndexError | UnboundLocalError | ZeroDivisionError
  | KeyError | ReadError

definition bind_err :: "py_error + 'a \<Rightarrow> ('a \<Rightarrow> py_error + 'b) \<Rightarrow> py_error + 'b" where
  "bind_err m f = (case m of Inl e \<Rightarrow> Inl e | Inr v \<Rightarrow> f v)"

text \<open>
  A text file of numbers is the list of its rows, each row the list of the numbers on one
  line; the file system maps a file name to such a table. \<open>numpy.loadtxt(fname)\<close> is
  called with its defaults, so \<open>ndmin = 0\<close>: blank lines are skipped, rows of different
  widths raise \<open>ValueError\<close>, and axes of length one are squeezed away. A table of one
  row therefore comes back as a one-dimensional array, and a table without rows as an
  empty one-dimensional array.
\<close>

type_synonym table = "real list list"
type_synonym filesystem = "string \<Rightarrow> table option"

datatype ndarray = Arr0 real | Arr1 "real list" | Arr2 "real list list"

definition squeeze :: "real list list \<Rightarrow> ndarray" where
  "squeeze rows =
     (if length rows = 1 \<and> length (hd rows) = 1 then Arr0 (hd (hd rows))
      else if length rows = 1 then Arr1 (hd rows)
      else if length (hd rows) = 1 then Arr1 (map hd rows)
      else Arr2 rows)"

definition np_loadtxt :: "filesystem \<Rightarrow> string \<Rightarrow> py_error + ndarray" where
  "np_loadtxt fs fname =
     (case fs fname of
        None \<Rightarrow> Inl FileNotFoundError
      | Some lines \<Rightarrow>
          (case filter (\<lambda>r. r \<noteq> []) lines of
             [] \<Rightarrow> Inr (Arr1 [])
           | r # rs \<Rightarrow>
               if list_all (\<lambda>q. length q = length r) rs then Inr (squeeze (r # rs))
               else Inl ValueError))"

text \<open>\<open>tmp[:, k]\<close>: a column of a two-dimensional array; any other array has too few axes.\<close>

definition column :: "ndarray \<Rightarrow> nat \<Rightarrow> py_error + real list" where
  "column tmp k =
     (case tmp of
        Arr2 rows \<Rightarrow> if k < length (hd rows) then Inr (map (\<lambda>r. r ! k) rows) else Inl IndexError
      | _ \<Rightarrow> Inl IndexError)"

text \<open>
  \<open>numpy.argmin\<close> returns the first index of the least element and raises
  \<open>ValueError\<close> on an empty array.
\<close>

fun argmin_scan :: "real list \<Rightarrow> nat \<Rightarrow> real \<Rightarrow> nat \<Rightarrow> nat" where
  "argmin_scan [] i best bi = bi"
| "argmin_scan (v # vs) i best bi =
     (if v < best then argmin_scan vs (Suc i) v i else argmin_scan vs (Suc i) best bi)"

definition np_argmin :: "real list \<Rightarrow> py_error + nat" where
  "np_argmin vs = (case vs of [] \<Rightarrow> Inl ValueError | v # rest \<Rightarrow> Inr (argmin_scan rest 1 v 0))"

text \<open>\<open>np.argmin(np.abs(channels_dd_original - d))\<close>\<close>

definition nearest_channel :: "real list \<Rightarrow> real \<Rightarrow> py_error + nat" where
  "nearest_channel channels_dd_original d = np_argmin (map (\<lambda>c. \<bar>c - d\<bar>) channels_dd_original)"

subsection \<open>The data\<close>

text \<open>
  The dictionary \<open>segment\<close> of the six columns of the table, and the DAS array: one entry
  per channel of its distance axis, holding the channel's value of the \<open>distance\<close>
  coordinate and its trace (the column \<open>da[:, k]\<close>, of any type).
\<close>

record segment =
  x1 :: "real list"
  y1 :: "real list"
  d1 :: "real list"
  x2 :: "real list"
  y2 :: "real list"
  d2 :: "real list"

type_synonym 'a das = "(real \<times> 'a) list"

text \<open>The variables of the first loop.\<close>

record tie_state =
  icount :: int
  tie_indices :: "int list"
  tie_distances :: "real list"
  tie_lat :: "real list"
  tie_lon :: "real list"
  mapped_ranges :: "(nat \<times> nat) list"

definition tie_init :: tie_state where
  "tie_init = \<lparr>icount = 0, tie_indices = [], tie_distances = [], tie_lat = [], tie_lon = [],
               mapped_ranges = []\<rparr>"

text \<open>
  What \<open>apply_mapping\<close> hands to the array library: the stitched traces \<open>da2\<close> and the
  tie lists of the three coordinates built from them. The constructors of the
  coordinates and \<open>assign_coords\<close> belong to that library and are not modelled.
\<close>

record 'a mapped =
  m_data :: "'a list"
  m_tie_indices :: "int list"
  m_tie_distances :: "real list"
  m_tie_lat :: "real list"
  m_tie_lon :: "real list"

subsection \<open>apply\_mapping\<close>

text \<open>
  One pass of the first loop, for the segment with index \<open>i\<close>:
  \<^verbatim>\<open>
  i1 = np.argmin(np.abs(channels_dd_original - segment['d1'][i]))
  i2 = np.argmin(np.abs(channels_dd_original - segment['d2'][i]))
  nchan = i2-i1
  tie_indices.append(icount); tie_distances.append(segment['d1'][i]); ...
  icount += nchan
  if(i<len(segment['x1'])-1):
      if(segment['d2'][i] != segment['d1'][i+1]):
          tie_indices.append(icount)
          icount += 1
          tie_distances.append(segment['d2'][i]); ...
  else:
      tie_indices.append(icount)
      tie_distances.append(segment['d2'][i]); ...
  mapped_ranges.append([i1,i2])
  \<close>
\<close>

definition push_tie :: "tie_state \<Rightarrow> real \<Rightarrow> real \<Rightarrow> real \<Rightarrow> tie_state" where
  "push_tie st d lat lon =
     st\<lparr>tie_indices := tie_indices st @ [icount st],
        tie_distances := tie_distances st @ [d],
        tie_lat := tie_lat st @ [lat],
        tie_lon := tie_lon st @ [lon]\<rparr>"

definition segment_step :: "real list \<Rightarrow> segment \<Rightarrow> tie_state \<Rightarrow> nat \<Rightarrow> py_error + tie_state" where
  "segment_step channels_dd_original seg st i =
     bind_err (nearest_channel channels_dd_original (d1 seg ! i)) (\<lambda>i1.
     bind_err (nearest_channel channels_dd_original (d2 seg ! i)) (\<lambda>i2.
       let nchan = int i2 - int i1;
           st1 = push_tie st (d1 seg ! i) (y1 seg ! i) (x1 seg ! i);
           st2 = st1\<lparr>icount := icount st1 + nchan\<rparr>;
           st3 = (if int i < int (length (x1 seg)) - 1
                  then (if d2 seg ! i \<noteq> d1 seg ! (i + 1)
                        then (let st' = push_tie st2 (d2 seg ! i) (y2 seg ! i) (x2 seg ! i)
                              in st'\<lparr>icount := icount st' + 1\<rparr>)
                        else st2)
                  else push_tie st2 (d2 seg ! i) (y2 seg ! i) (x2 seg ! i))
       in Inr (st3\<lparr>mapped_ranges := mapped_ranges st3 @ [(i1, i2)]\<rparr>)))"

fun segment_loop :: "real list \<Rightarrow> segment \<Rightarrow> nat list \<Rightarrow> tie_state \<Rightarrow> py_error + tie_state" where
  "segment_loop dd seg [] st = Inr st"
| "segment_loop dd seg (i # rest) st =
     (case segment_step dd seg st i of Inl e \<Rightarrow> Inl e | Inr st' \<Rightarrow> segment_loop dd seg rest st')"

text \<open>
  The second loop. Its slice bounds:
  \<^verbatim>\<open>
  i0 = mapped_ranges[i][0]
  i1 = mapped_ranges[i][1]
  if(i<len(mapped_ranges)-1):
      if(mapped_ranges[i][1]!=mapped_ranges[i+1][0]):
          i1 += 1
  else:
      i1 += 1
  \<close>
  and \<open>da[:, i0:i1]\<close>, a Python slice with bounds that are not negative: it is cut at the
  end of the axis and empty when \<open>i1 \<le> i0\<close>. \<open>xd.concatenate\<close> appends the slices.
\<close>

definition slice_bounds :: "(nat \<times> nat) list \<Rightarrow> nat \<Rightarrow> nat \<times> nat" where
  "slice_bounds ranges i =
     (let i0 = fst (ranges ! i);
          i1 = snd (ranges ! i)
      in if int i < int (length ranges) - 1
         then (if snd (ranges ! i) \<noteq> fst (ranges ! (i + 1)) then (i0, i1 + 1) else (i0, i1))
         else (i0, i1 + 1))"

definition py_slice :: "'b list \<Rightarrow> nat \<Rightarrow> nat \<Rightarrow> 'b list" where
  "py_slice xs i0 i1 = take (i1 - i0) (drop i0 xs)"

definition collect :: "'a das \<Rightarrow> (nat \<times> nat) list \<Rightarrow> py_error + 'a list" where
  "collect da ranges =
     (if ranges = [] then Inl UnboundLocalError
      else Inr (concat (map (\<lambda>i. case slice_bounds ranges i of
                                     (i0, i1) \<Rightarrow> map snd (py_slice da i0 i1))
                            [0..<length ranges])))"

text \<open>
  The body of \<open>apply_mapping\<close> from the loaded table \<open>tmp\<close> on, and the function itself.
  The source reads
  \<^verbatim>\<open>
  def apply_mapping(da, segments_filename="good_segments.txt"):
      tmp = np.loadtxt("good_segments.txt")
  \<close>
  so the argument \<open>segments_filename\<close> does not occur in the body.
\<close>

definition map_segments :: "'a das \<Rightarrow> ndarray \<Rightarrow> py_error + 'a mapped" where
  "map_segments da tmp =
     bind_err (column tmp 0) (\<lambda>c0.
     bind_err (column tmp 1) (\<lambda>c1.
     bind_err (column tmp 2) (\<lambda>c2.
     bind_err (column tmp 3) (\<lambda>c3.
     bind_err (column tmp 4) (\<lambda>c4.
     bind_err (column tmp 5) (\<lambda>c5.
       let seg = \<lparr>x1 = c0, y1 = c1, d1 = c2, x2 = c3, y2 = c4, d2 = c5\<rparr>;
           channels_dd_original = map fst da
       in bind_err (segment_loop channels_dd_original seg [0..<length (x1 seg)] tie_init) (\<lambda>st.
          bind_err (collect da (mapped_ranges st)) (\<lambda>da2.
            Inr \<lparr>m_data = da2, m_tie_indices = tie_indices st,
                 m_tie_distances = tie_distances st, m_tie_lat = tie_lat st,
                 m_tie_lon = tie_lon st\<rparr>))))))))"

definition apply_mapping :: "filesystem \<Rightarrow> 'a das \<Rightarrow> string \<Rightarrow> py_error + 'a mapped" where
  "apply_mapping fs da segments_filename =
     bind_err (np_loadtxt fs ''good_segments.txt'') (map_segments da)"

subsection \<open>Quantities of the statements about \<open>apply_mapping\<close>\<close>




text \<open>A file system that holds one table, under the name the source reads.\<close>

definition fs_of :: "table \<Rightarrow> filesystem" where
  "fs_of rows = (\<lambda>f. if f = ''good_segments.txt'' then Some rows else None)"

section \<open>HVSR batch driver (Auto\_process\_HV.py)\<close>

subsection \<open>The parameter template and \<open>str.format\<close>\<close>

text \<open>
  \<open>get_paramString\<close> returns one string literal, each of whose 44 lines ends in the
  escape \<^verbatim>\<open>\n\<close>: the lines are \<open>template_lines\<close>, and the literal is their
  concatenation with the character \<open>0x0A\<close> after each.
\<close>

definition template_lines :: "string list" where
  "template_lines =
       [''PARAMETERS_VERSION=1    '',
        ''FROM_TIME_TYPE=Absolute'',
        ''FROM_TIME_TEXT={tStart}'',
        ''TO_TIME_TYPE=Absolute'',
        ''TO_TIME_TEXT={tEnd}'',
        ''REFERENCE='',
        ''COMMON_TIME_WINDOWS=false'',
        ''WINDOW_LENGTH_TYPE=Exactly'',
        ''WINDOW_MIN_LENGTH(s)={winLen}'',
        ''WINDOW_MAX_LENGTH(s)={winLen}'',
        ''WINDOW_MAX_COUNT=0'',
        ''WINDOW_MAXIMUM_PRIME_FACTOR=11'',
        ''BAD_SAMPLE_TOLERANCE (s)=0'',
        ''BAD_SAMPLE_GAP (s)=0'',
        ''WINDOW_OVERLAP (%)={overlap}'',
        ''BAD_SAMPLE_THRESHOLD_TYPE={threshold}'',
        ''BAD_SAMPLE_THRESHOLD_VALUE (%)={threshold_pct}'',
        ''ANTI-TRIGGERING_ON_RAW_SIGNAL (y/n)=n'',
        ''ANTI-TRIGGERING_ON_FILTERED_SIGNAL (y/n)=n'',
        ''SEISMIC_EVENT_TRIGGER (y/n)=n'',
        ''SEISMIC_EVENT_DELAY (s)=-0.1'',
        ''WINDOW_TYPE=Tukey'',
        ''WINDOW_REVERSED=n'',
        ''WINDOW_ALPHA=0.1'',
        ''SMOOTHING_METHOD=Function'',
        ''SMOOTHING_WIDTH_TYPE=Log'',
        ''SMOOTHING_WIDTH={KO}'',
        ''SMOOTHING_SCALE_TYPE=Log'',
        ''SMOOTHING_WINDOW_TYPE=KonnoOhmachi'',
        ''SMOOTHING_WINDOW_REVERSED=n'',
        ''MINIMUM_FREQUENCY={minFreq}'',
        ''MAXIMUM_FREQUENCY={maxFreq}'',
        ''SCALE_TYPE_FREQUENCY=Log'',
        ''STEP_TYPE_FREQUENCY=Count'',
        ''SAMPLES_NUMBER_FREQUENCY={N_samples}'',
        ''#STEP_FREQUENCY=1.00231'',
        ''HIGH_PASS_FREQUENCY=0'',
        ''HORIZONTAL_COMPONENTS={horizontals}'',
        ''HORIZONTAL_AZIMUTH={azimuth}'',
        ''ROTATION_STEP={rotSteps}'',
        ''FREQUENCY_WINDOW_REJECTION_MINIMUM_FREQUENCY={rej_min_freq}'',
        ''FREQUENCY_WINDOW_REJECTION_MAXIMUM_FREQUENCY={rej_max_freq}'',
        ''FREQUENCY_WINDOW_REJECTION_STDDEV_FACTOR={rej_stdev}'',
        ''FREQUENCY_WINDOW_REJECTION_MAXIMUM_ITERATIONS={rej_it}'']"

definition get_paramString :: string where
  "get_paramString = concat (map (\<lambda>l. l @ [CHR 0x0A]) template_lines)"

text \<open>
  The values a keyword argument of \<open>format\<close> can have here, and their text under an empty
  format specification, which is that of \<open>str\<close>. An integer prints in decimal. A float
  prints as the shortest decimal that reads back as the same float; that conversion is a
  matter of the floating-point format, so a float is represented by this text
  (\<open>PyFloat ''0.2''\<close> for \<open>0.2\<close>).
\<close>

datatype pyval = PyInt int | PyFloat string | PyStr string

fun nat_digits :: "nat \<Rightarrow> string" where
  "nat_digits n =
     (if n < 10 then [''0123456789'' ! n] else nat_digits (n div 10) @ [''0123456789'' ! (n mod 10)])"

declare nat_digits.simps [simp del]

fun py_str :: "pyval \<Rightarrow> string" where
  "py_str (PyInt i) = (if i < 0 then CHR ''-'' # nat_digits (nat (- i)) else nat_digits (nat i))"
| "py_str (PyFloat s) = s"
| "py_str (PyStr s) = s"

text \<open>
  \<open>template.format(**kwargs)\<close> for templates whose replacement fields are plain names,
  as all fields of \<open>get_paramString\<close> are: \<open>{{\<close> and \<open>}}\<close> stand for one brace, a
  field \<open>{name}\<close> is replaced by the text of the keyword argument \<open>name\<close>, a name that was
  not passed raises \<open>KeyError\<close>, an empty or numeric name asks for a positional argument
  and raises \<open>IndexError\<close> since none is passed, and a brace without its partner raises
  \<open>ValueError\<close>. The second argument of \<open>format_scan\<close> is the field name read so far,
  \<open>None\<close> outside a field. Conversions and format specifications (\<open>!\<close>, \<open>:\<close>) and
  attribute or index access in a field are not modelled.
\<close>

type_synonym kwargs = "(string \<times> pyval) list"

definition get_field :: "kwargs \<Rightarrow> string \<Rightarrow> py_error + string" where
  "get_field kw name =
     (if list_all (\<lambda>c. c \<in> set ''0123456789'') name then Inl IndexError
      else case map_of kw name of None \<Rightarrow> Inl KeyError | Some v \<Rightarrow> Inr (py_str v))"

definition emit :: "string \<Rightarrow> py_error + string \<Rightarrow> py_error + string" where
  "emit s r = (case r of Inl e \<Rightarrow> Inl e | Inr t \<Rightarrow> Inr (s @ t))"

fun format_scan :: "kwargs \<Rightarrow> string option \<Rightarrow> string \<Rightarrow> py_error + string" where
  "format_scan kw None [] = Inr []"
| "format_scan kw (Some name) [] = Inl ValueError"
| "format_scan kw None (c # cs) =
     (if c = CHR ''{'' then
        (case cs of
           [] \<Rightarrow> Inl ValueError
         | d # rest \<Rightarrow> if d = CHR ''{'' then emit ''{'' (format_scan kw None rest)
                      else format_scan kw (Some []) cs)
      else if c = CHR ''}'' then
        (case cs of
           [] \<Rightarrow> Inl ValueError
         | d # rest \<Rightarrow> if d = CHR ''}'' then emit ''}'' (format_scan kw None rest)
                      else Inl ValueError)
      else emit [c] (format_scan kw None cs))"
| "format_scan kw (Some name) (c # cs) =
     (if c = CHR ''}'' then
        (case get_field kw name of
           Inl e \<Rightarrow> Inl e
         | Inr v \<Rightarrow> emit v (format_scan kw None cs))
      else format_scan kw (Some (name @ [c])) cs)"

definition py_format :: "string \<Rightarrow> kwargs \<Rightarrow> py_error + string" where
  "py_format template kw = format_scan kw None template"

text \<open>\<open>s.split('\n')\<close>: the lines of a text, the last one being what follows the last newline.\<close>

fun split_on :: "char \<Rightarrow> string \<Rightarrow> string list" where
  "split_on sep [] = [[]]"
| "split_on sep (c # cs) =
     (if c = sep then [] # split_on sep cs
      else case split_on sep cs of
             [] \<Rightarrow> [[c]]
           | p # ps \<Rightarrow> (c # p) # ps)"

definition lines_of :: "string \<Rightarrow> string list" where
  "lines_of s = split_on (CHR 0x0A) s"

subsection \<open>Configuration\<close>

text \<open>
  The module-level variables read by \<open>run_HV\<close>. Those set from the command line are the
  fields of \<open>hv_config\<close> (\<open>process_len\<close> is declared with \<open>type = 'int'\<close>); the fixed
  ones are constants.
\<close>

record hv_config =
  process_len :: int
  time_window_len :: pyval
  win_overlap :: pyval
  threshold_pct :: pyval
  KO :: pyval
  min_freq :: pyval
  max_freq :: pyval
  N_samples :: pyval
  want_rotation :: bool
  rotation_steps :: pyval

definition threshold :: pyval where "threshold = PyStr ''RelativeSampleThreshold''"
definition horizontals_method :: pyval where "horizontals_method = PyStr ''Squared''"
definition azimuth :: pyval where "azimuth = PyInt 0"
definition rej_min_freq :: pyval where "rej_min_freq = PyFloat ''0.5''"
definition rej_max_freq :: pyval where "rej_max_freq = PyInt 50"
definition rej_stdev :: pyval where "rej_stdev = PyFloat ''1.8''"
definition rej_it :: pyval where "rej_it = PyInt 500"

text \<open>The defaults of the command-line options.\<close>

definition default_config :: hv_config where
  "default_config = \<lparr>process_len = 3600, time_window_len = PyInt 60, win_overlap = PyInt 50,
     threshold_pct = PyFloat ''0.5'', KO = PyFloat ''0.2'', min_freq = PyFloat ''0.2'',
     max_freq = PyInt 50, N_samples = PyInt 500, want_rotation = False,
     rotation_steps = PyInt 10\<rparr>"

text \<open>
  The call in \<open>run_HV\<close>:
  \<^verbatim>\<open>
  paramsString = get_paramString()
  paramsString.format(tStart=tStart, tEnd=tEnd, threshold=threshold,
      threshold_pct=threshold_pct, KO=KO, winLen=time_window_len, overlap=win_overlap,
      N_samples=N_samples, minFreq=min_freq, maxFreq=max_freq,
      horizontals=horizontals_method, azimuth=azimuth, rotSteps=rotation_steps,
      rej_min_freq=rej_min_freq, rej_max_freq=rej_max_freq, rej_stdev=rej_stdev,
      rej_it = rej_it)
  \<close>
\<close>

definition format_params :: "hv_config \<Rightarrow> string \<Rightarrow> string \<Rightarrow> py_error + string" where
  "format_params cfg tStart tEnd =
     py_format get_paramString
       [(''tStart'', PyStr tStart), (''tEnd'', PyStr tEnd), (''threshold'', threshold),
        (''threshold_pct'', threshold_pct cfg), (''KO'', KO cfg),
        (''winLen'', time_window_len cfg), (''overlap'', win_overlap cfg),
        (''N_samples'', N_samples cfg), (''minFreq'', min_freq cfg),
        (''maxFreq'', max_freq cfg), (''horizontals'', horizontals_method),
        (''azimuth'', azimuth), (''rotSteps'', rotation_steps cfg),
        (''rej_min_freq'', rej_min_freq), (''rej_max_freq'', rej_max_freq),
        (''rej_stdev'', rej_stdev), (''rej_it'', rej_it)]"

text \<open>
  The lines of the parameter file for a configuration and a pair of time stamps: the
  lines of the template with each field replaced by the text of its value.
\<close>

definition rendered_lines :: "hv_config \<Rightarrow> string \<Rightarrow> string \<Rightarrow> string list" where
  "rendered_lines cfg tStart tEnd =
       [''PARAMETERS_VERSION=1    '',
        ''FROM_TIME_TYPE=Absolute'',
        ''FROM_TIME_TEXT='' @ tStart,
        ''TO_TIME_TYPE=Absolute'',
        ''TO_TIME_TEXT='' @ tEnd,
        ''REFERENCE='',
        ''COMMON_TIME_WINDOWS=false'',
        ''WINDOW_LENGTH_TYPE=Exactly'',
        ''WINDOW_MIN_LENGTH(s)='' @ py_str (time_window_len cfg),
        ''WINDOW_MAX_LENGTH(s)='' @ py_str (time_window_len cfg),
        ''WINDOW_MAX_COUNT=0'',
        ''WINDOW_MAXIMUM_PRIME_FACTOR=11'',
        ''BAD_SAMPLE_TOLERANCE (s)=0'',
        ''BAD_SAMPLE_GAP (s)=0'',
        ''WINDOW_OVERLAP (%)='' @ py_str (win_overlap cfg),
        ''BAD_SAMPLE_THRESHOLD_TYPE='' @ py_str threshold,
        ''BAD_SAMPLE_THRESHOLD_VALUE (%)='' @ py_str (threshold_pct cfg),
        ''ANTI-TRIGGERING_ON_RAW_SIGNAL (y/n)=n'',
        ''ANTI-TRIGGERING_ON_FILTERED_SIGNAL (y/n)=n'',
        ''SEISMIC_EVENT_TRIGGER (y/n)=n'',
        ''SEISMIC_EVENT_DELAY (s)=-0.1'',
        ''WINDOW_TYPE=Tukey'',
        ''WINDOW_REVERSED=n'',
        ''WINDOW_ALPHA=0.1'',
        ''SMOOTHING_METHOD=Function'',
        ''SMOOTHING_WIDTH_TYPE=Log'',
        ''SMOOTHING_WIDTH='' @ py_str (KO cfg),
        ''SMOOTHING_SCALE_TYPE=Log'',
        ''SMOOTHING_WINDOW_TYPE=KonnoOhmachi'',
        ''SMOOTHING_WINDOW_REVERSED=n'',
        ''MINIMUM_FREQUENCY='' @ py_str (min_freq cfg),
        ''MAXIMUM_FREQUENCY='' @ py_str (max_freq cfg),
        ''SCALE_TYPE_FREQUENCY=Log'',
        ''STEP_TYPE_FREQUENCY=Count'',
        ''SAMPLES_NUMBER_FREQUENCY='' @ py_str (N_samples cfg),
        ''#STEP_FREQUENCY=1.00231'',
        ''HIGH_PASS_FREQUENCY=0'',
        ''HORIZONTAL_COMPONENTS='' @ py_str horizontals_method,
        ''HORIZONTAL_AZIMUTH='' @ py_str azimuth,
        ''ROTATION_STEP='' @ py_str (rotation_steps cfg),
        ''FREQUENCY_WINDOW_REJECTION_MINIMUM_FREQUENCY='' @ py_str rej_min_freq,
        ''FREQUENCY_WINDOW_REJECTION_MAXIMUM_FREQUENCY='' @ py_str rej_max_freq,
        ''FREQUENCY_WINDOW_REJECTION_STDDEV_FACTOR='' @ py_str rej_stdev,
        ''FREQUENCY_WINDOW_REJECTION_MAXIMUM_ITERATIONS='' @ py_str rej_it]"

subsection \<open>run\_HV\<close>

text \<open>
  Times are real numbers of seconds. What \<open>run_HV\<close> takes from the world outside the
  program is a parameter \<open>env\<close>: the waveform library's \<open>read(wf)\<close> with the first
  trace's \<open>stats\<close> (it can raise), the two ways a time is printed (the calendar fields
  of the library's time type under the \<open>%\<close> formats of \<open>tStart\<close> and \<open>tStart_hv\<close>),
  and the effects of one pass of the window loop on a world \<open>'w\<close>: writing the parameter
  file, \<open>os.makedirs\<close>, the calls of \<open>geopsy-hv\<close> and the renames, any of which can
  raise and so end the pass with an exception.
\<close>

record trace_stats =
  network :: string
  station :: string
  starttime :: real
  endtime :: real

record window_job =
  job_wf :: string
  job_node_ID :: string
  job_station :: string
  job_start :: real
  job_end :: real
  job_tStart_hv :: string
  job_params :: string
  job_rotation :: bool

record 'w hv_env =
  obspy_read :: "'w \<Rightarrow> string \<Rightarrow> py_error + trace_stats"
  fmt_param_time :: "real \<Rightarrow> string"
  fmt_file_time :: "real \<Rightarrow> string"
  window_effects :: "'w \<Rightarrow> window_job \<Rightarrow> 'w \<times> py_error option"

text \<open>
  \<open>np.arange(start, end, process_len)\<close>: \<open>ceil((end - start) / process_len)\<close> values,
  none when that is not positive, the \<open>k\<close>-th being \<open>start + k * process_len\<close>.
\<close>

definition np_arange :: "real \<Rightarrow> real \<Rightarrow> real \<Rightarrow> real list" where
  "np_arange start stop step =
     map (\<lambda>k. start + real k * step) [0..<nat \<lceil>(stop - start) / step\<rceil>]"

text \<open>
  One pass of the loop \<open>for i in np.arange(start, end, process_len)\<close>, up to the effects,
  and the loop: an exception ends it. The result lists the windows whose pass was begun.
\<close>

definition window_pass ::
  "'w hv_env \<Rightarrow> hv_config \<Rightarrow> string \<Rightarrow> string \<Rightarrow> string \<Rightarrow> 'w \<Rightarrow> real \<Rightarrow> 'w \<times> py_error option" where
  "window_pass env cfg node_ID wfile station_label w time =
     (let tStart = fmt_param_time env time;
          tStart_hv = fmt_file_time env time;
          endtime = time + real_of_int (process_len cfg);
          tEnd = fmt_param_time env endtime
      in case format_params cfg tStart tEnd of
           Inl e \<Rightarrow> (w, Some e)
         | Inr text \<Rightarrow>
             window_effects env w
               \<lparr>job_wf = wfile, job_node_ID = node_ID, job_station = station_label,
                job_start = time, job_end = endtime, job_tStart_hv = tStart_hv,
                job_params = text, job_rotation = want_rotation cfg\<rparr>)"

fun window_loop ::
  "'w hv_env \<Rightarrow> hv_config \<Rightarrow> string \<Rightarrow> string \<Rightarrow> string \<Rightarrow> real list \<Rightarrow> 'w
     \<Rightarrow> 'w \<times> real list \<times> py_error option" where
  "window_loop env cfg node_ID wfile station_label [] w = (w, [], None)"
| "window_loop env cfg node_ID wfile station_label (time # rest) w =
     (case window_pass env cfg node_ID wfile station_label w time of
        (w', Some e) \<Rightarrow> (w', [time], Some e)
      | (w', None) \<Rightarrow>
          (case window_loop env cfg node_ID wfile station_label rest w' of
             (w'', begun, r) \<Rightarrow> (w'', time # begun, r)))"

text \<open>
  \<^verbatim>\<open>
  def run_HV(wf):
      st = read(wf)
      tr = st[0]
      start = tr.stats.starttime
      end = tr.stats.endtime
      station = '%s_%s'%(tr.stats.network, tr.stats.station)
      delta = end-start
      print("We get %s .hv files ..."%(int(delta/process_len), process_len))
      for i in np.arange(start, end, process_len):
          ...
  \<close>
  The division in the \<open>print\<close> raises \<open>ZeroDivisionError\<close> when \<open>process_len\<close> is 0.
\<close>

definition run_HV ::
  "'w hv_env \<Rightarrow> hv_config \<Rightarrow> string \<Rightarrow> 'w \<Rightarrow> string \<Rightarrow> 'w \<times> real list \<times> py_error option" where
  "run_HV env cfg node_ID w wfile =
     (case obspy_read env w wfile of
        Inl e \<Rightarrow> (w, [], Some e)
      | Inr tr \<Rightarrow>
          let start = starttime tr;
              stop = endtime tr;
              station_label = network tr @ ''_'' @ station tr
          in if process_len cfg = 0 then (w, [], Some ZeroDivisionError)
             else window_loop env cfg node_ID wfile station_label
                    (np_arange start stop (real_of_int (process_len cfg))) w)"

subsection \<open>The main loop\<close>

text \<open>
  \<open>os.path.split\<close> and \<open>os.path.join\<close> of \<open>posixpath\<close>, \<open>repr\<close> of a string of
  ASCII characters, \<open>str\<close> of a pair of strings and \<open>str.split\<close>, as far as
  \<^verbatim>\<open>node_ID = str(os.path.split(file)).split('.')[1]\<close> needs them.
\<close>

definition rstrip_slash :: "string \<Rightarrow> string" where
  "rstrip_slash s = rev (dropWhile (\<lambda>c. c = CHR ''/'') (rev s))"

definition os_path_split :: "string \<Rightarrow> string \<times> string" where
  "os_path_split p =
     (let tail = rev (takeWhile (\<lambda>c. c \<noteq> CHR ''/'') (rev p));
          head = take (length p - length tail) p
      in (if head \<noteq> [] \<and> \<not> list_all (\<lambda>c. c = CHR ''/'') head then rstrip_slash head else head,
          tail))"

definition os_path_join :: "string \<Rightarrow> string \<Rightarrow> string" where
  "os_path_join a b =
     (if b \<noteq> [] \<and> hd b = CHR ''/'' then b
      else if a = [] \<or> last a = CHR ''/'' then a @ b
      else a @ ''/'' @ b)"

definition hex2 :: "nat \<Rightarrow> string" where
  "hex2 n = [''0123456789abcdef'' ! (n div 16), ''0123456789abcdef'' ! (n mod 16)]"

definition repr_char :: "char \<Rightarrow> char \<Rightarrow> string" where
  "repr_char quote c =
     (if c = quote \<or> c = CHR 0x5C then [CHR 0x5C, c]
      else if c = CHR 0x09 then [CHR 0x5C, CHR ''t'']
      else if c = CHR 0x0A then [CHR 0x5C, CHR ''n'']
      else if c = CHR 0x0D then [CHR 0x5C, CHR ''r'']
      else if (of_char c :: nat) < 32 \<or> 127 \<le> (of_char c :: nat)
        then [CHR 0x5C, CHR ''x''] @ hex2 (of_char c)
      else [c])"

definition py_repr :: "string \<Rightarrow> string" where
  "py_repr s =
     (let quote = (if CHR 0x27 \<in> set s \<and> CHR 0x22 \<notin> set s then CHR 0x22 else CHR 0x27)
      in [quote] @ concat (map (repr_char quote) s) @ [quote])"

definition str_pair :: "string \<times> string \<Rightarrow> string" where
  "str_pair p = ''('' @ py_repr (fst p) @ '', '' @ py_repr (snd p) @ '')''"

definition derive_node_ID :: "string \<Rightarrow> py_error + string" where
  "derive_node_ID file =
     (let parts = split_on (CHR ''.'') (str_pair (os_path_split file))
      in if 1 < length parts then Inr (parts ! 1) else Inl IndexError)"

text \<open>
  \<^verbatim>\<open>
  directory = 'Raw_Data'
  for file in files:
      node_ID = str(os.path.split(file)).split('.')[1]
      wf = os.path.join(directory, file)
      print(wf)
      try:
          run_HV(wf)
      except:
          continue
  print('Job Done')
  \<close>
  The state of the driver: the world, the paths handed to \<open>run_HV\<close>, those for which it
  returned, what the main program itself printed, and the exception that ended the
  program if one escaped. The derivation of \<open>node_ID\<close> stands outside the \<open>try\<close>.
\<close>

record 'w driver =
  world :: 'w
  attempted :: "string list"
  completed :: "string list"
  printed :: "string list"
  uncaught :: "py_error option"

definition directory :: string where
  "directory = ''Raw_Data''"

fun file_loop :: "'w hv_env \<Rightarrow> hv_config \<Rightarrow> string list \<Rightarrow> 'w driver \<Rightarrow> 'w driver" where
  "file_loop env cfg [] d = d\<lparr>printed := printed d @ [''Job Done'']\<rparr>"
| "file_loop env cfg (file # rest) d =
     (case derive_node_ID file of
        Inl e \<Rightarrow> d\<lparr>uncaught := Some e\<rparr>
      | Inr node_ID \<Rightarrow>
          let wfile = os_path_join directory file;
              d1 = d\<lparr>printed := printed d @ [wfile], attempted := attempted d @ [wfile]\<rparr>
          in case run_HV env cfg node_ID (world d1) wfile of
               (w', begun, Some e) \<Rightarrow> file_loop env cfg rest (d1\<lparr>world := w'\<rparr>)
             | (w', begun, None) \<Rightarrow>
                 file_loop env cfg rest (d1\<lparr>world := w', completed := completed d1 @ [wfile]\<rparr>))"

definition main_program :: "'w hv_env \<Rightarrow> hv_config \<Rightarrow> string list \<Rightarrow> 'w \<Rightarrow> 'w driver" where
  "main_program env cfg files w =
     file_loop env cfg files
       \<lparr>world = w, attempted = [], completed = [], printed = [], uncaught = None\<rparr>"

subsection \<open>Two environments\<close>


definition second_unreadable :: "unit hv_env" where
  "second_unreadable =
     \<lparr>obspy_read = (\<lambda>w f. if f = ''Raw_Data/BE.UCCS..HHE.*.2025.061'' then Inl ReadError
                          else Inr \<lparr>network = ''BE'', station = ''UCCS'', starttime = 0, endtime = 7200\<rparr>),
      fmt_param_time = (\<lambda>t. []), fmt_file_time = (\<lambda>t. []),
      window_effects = (\<lambda>w j. (w, None))\<rparr>"

section \<open>Properties of the geometry helpers\<close>

text \<open>
  Claim C7. With the origin set to the hard-coded survey origin and \<open>mult = 1\<close>,
  \<open>roof_edges2D\<close> returns the eight literal survey vertices in the order
  N, E_1, E_2, W, S, E_5, E_6, E; the first one is (681443.103, 248954.576).
\<close>

theorem roof_edges2D_default_origin:
  "roof_edges2D 1 248919.2 681437.8 =
     [(681443.103, 248954.576), (681429.922, 248934.161), (681431.376, 248912.610),
      (681426.233, 248895.830), (681447.497, 248889.417), (681460.536, 248909.601),
      (681459.040, 248927.087), (681462.783, 248942.503)]"
  by (simp add: roof_edges2D_def)

text \<open>
  Claim C8. At the origin \<open>Lat = 0\<close>, \<open>Lon = 0\<close>, every coordinate of every vertex
  returned for \<open>mult = 2\<close> is twice the coordinate returned for \<open>mult = 1\<close>.
\<close>

theorem roof_edges2D_mult_two:
  "roof_edges2D 2 0 0 = map (\<lambda>(x, y). (2 * x, 2 * y)) (roof_edges2D 1 0 0)"
  by (simp add: roof_edges2D_def)


text \<open>
  Claim C10. For \<open>mult = 1\<close> the caller's offset is a pure translation: the result
  for \<open>(Lat, Lon)\<close> is the result for the origin, moved by \<open>(Lon, Lat)\<close>.
\<close>

theorem roof_edges2D_translation:
  "roof_edges2D 1 Lat Lon = map (\<lambda>(x, y). (x + Lon, y + Lat)) (roof_edges2D 1 0 0)"
  by (simp add: roof_edges2D_def)

section \<open>Properties of \<open>apply_mapping\<close>\<close>

subsection \<open>The nearest channel\<close>

lemma bind_err_Inr [simp]: "bind_err (Inr v) f = f v"
  by (simp add: bind_err_def)

lemma bind_err_Inl [simp]: "bind_err (Inl e) f = Inl e"
  by (simp add: bind_err_def)

lemma argmin_scan_spec:
  assumes "bi < i" "length pre = i" "pre ! bi = best"
    "\<forall>k<i. best \<le> pre ! k" "\<forall>k<bi. best < pre ! k"
  shows "argmin_scan vs i best bi < length (pre @ vs)
       \<and> (\<forall>k<length (pre @ vs). (pre @ vs) ! argmin_scan vs i best bi \<le> (pre @ vs) ! k)
       \<and> (\<forall>k<argmin_scan vs i best bi. (pre @ vs) ! argmin_scan vs i best bi < (pre @ vs) ! k)"
  using assms
proof (induction vs arbitrary: pre i best bi)
  case Nil
  then show ?case by auto
next
  case (Cons v vs)
  show ?case
  proof (cases "v < best")
    case True
    have "argmin_scan vs (Suc i) v i < length ((pre @ [v]) @ vs)
       \<and> (\<forall>k<length ((pre @ [v]) @ vs). ((pre @ [v]) @ vs) ! argmin_scan vs (Suc i) v i \<le> ((pre @ [v]) @ vs) ! k)
       \<and> (\<forall>k<argmin_scan vs (Suc i) v i. ((pre @ [v]) @ vs) ! argmin_scan vs (Suc i) v i < ((pre @ [v]) @ vs) ! k)"
    proof (rule Cons.IH)
      show "i < Suc i" by simp
      show "length (pre @ [v]) = Suc i" using Cons.prems by simp
      show "(pre @ [v]) ! i = v" using Cons.prems by (simp add: nth_append)
      show "\<forall>k<Suc i. v \<le> (pre @ [v]) ! k"
        using Cons.prems True by (auto simp: nth_append less_Suc_eq intro: less_imp_le order.trans)
      show "\<forall>k<i. v < (pre @ [v]) ! k"
        using Cons.prems True by (auto simp: nth_append)
    qed
    with True show ?thesis by simp
  next
    case False
    have "argmin_scan vs (Suc i) best bi < length ((pre @ [v]) @ vs)
       \<and> (\<forall>k<length ((pre @ [v]) @ vs). ((pre @ [v]) @ vs) ! argmin_scan vs (Suc i) best bi \<le> ((pre @ [v]) @ vs) ! k)
       \<and> (\<forall>k<argmin_scan vs (Suc i) best bi. ((pre @ [v]) @ vs) ! argmin_scan vs (Suc i) best bi < ((pre @ [v]) @ vs) ! k)"
    proof (rule Cons.IH)
      show "bi < Suc i" using Cons.prems by simp
      show "length (pre @ [v]) = Suc i" using Cons.prems by simp
      show "(pre @ [v]) ! bi = best" using Cons.prems by (simp add: nth_append)
      show "\<forall>k<Suc i. best \<le> (pre @ [v]) ! k"
        using Cons.prems False by (auto simp: nth_append less_Suc_eq)
      show "\<forall>k<bi. best < (pre @ [v]) ! k"
        using Cons.prems by (auto simp: nth_append)
    qed
    with False show ?thesis by simp
  qed
qed

lemma np_argmin_spec:
  assumes "np_argmin vs = Inr j"
  shows "j < length vs \<and> (\<forall>k<length vs. vs ! j \<le> vs ! k) \<and> (\<forall>k<j. vs ! j < vs ! k)"
proof (cases vs)
  case Nil
  with assms show ?thesis by (simp add: np_argmin_def)
next
  case (Cons v rest)
  with assms have j: "j = argmin_scan rest 1 v 0" by (simp add: np_argmin_def)
  have "argmin_scan rest 1 v 0 < length ([v] @ rest)
       \<and> (\<forall>k<length ([v] @ rest). ([v] @ rest) ! argmin_scan rest 1 v 0 \<le> ([v] @ rest) ! k)
       \<and> (\<forall>k<argmin_scan rest 1 v 0. ([v] @ rest) ! argmin_scan rest 1 v 0 < ([v] @ rest) ! k)"
    by (rule argmin_scan_spec) auto
  with j Cons show ?thesis by simp
qed




subsection \<open>The first loop\<close>












subsection \<open>The segment file\<close>

lemma apply_mapping_filename_irrelevant:
  "apply_mapping fs da name1 = apply_mapping fs da name2"
  by (simp add: apply_mapping_def)


text \<open>
  Claim C1 says that \<open>apply_mapping\<close> reads the file named by \<open>segments_filename\<close>. The
  code reads \<open>good_segments.txt\<close> whatever the argument is. With two different tables
  in the file system and \<open>segments_filename = "other_segments.txt"\<close>, the tie distances
  of the result are those of \<open>good_segments.txt\<close> (0, 10, 30), not those of the named
  file (5, 15, 20); and when only the named file exists the call raises
  \<open>FileNotFoundError\<close>.
\<close>

theorem apply_mapping_reads_fixed_name:
  "map_sum id m_tie_distances
     (apply_mapping
        (\<lambda>f. if f = ''good_segments.txt'' then Some [[0, 0, 0, 1, 1, 10], [1, 1, 10, 2, 2, 30]]
             else if f = ''other_segments.txt'' then Some [[5, 5, 5, 6, 6, 15], [6, 6, 15, 7, 7, 20]]
             else None)
        [(0, 0::nat), (10, 1), (20, 2), (30, 3)] ''other_segments.txt'') = Inr [0, 10, 30]
   \<and> map_sum id m_tie_distances
     (apply_mapping
        (\<lambda>f. if f = ''other_segments.txt'' then Some [[5, 5, 5, 6, 6, 15], [6, 6, 15, 7, 7, 20]]
             else None)
        [(0, 0::nat), (10, 1), (20, 2), (30, 3)] ''other_segments.txt'') = Inl FileNotFoundError
   \<and> map_sum id m_tie_distances
        (map_segments [(0, 0::nat), (10, 1), (20, 2), (30, 3)]
           (Arr2 [[5, 5, 5, 6, 6, 15], [6, 6, 15, 7, 7, 20]])) = Inr [5, 15, 20]"
  by (simp add: apply_mapping_def np_loadtxt_def squeeze_def map_segments_def column_def
     segment_step_def nearest_channel_def np_argmin_def collect_def slice_bounds_def py_slice_def
     push_tie_def tie_init_def Let_def upt_rec)


subsection \<open>Tie points\<close>





text \<open>
  Tie indices can repeat: a segment whose two distances are nearest to the same channel
  advances the counter by 0.
\<close>

lemma tie_indices_can_repeat:
  "map_sum id m_tie_indices
     (apply_mapping (fs_of [[0, 0, 0, 1, 1, 1], [1, 1, 1, 2, 2, 2], [2, 2, 2, 3, 3, 30]])
        [(0, 0::nat), (10, 1), (20, 2), (30, 3)] ''good_segments.txt'') = Inr [0, 0, 0, 3]"
  by (simp add: apply_mapping_def fs_of_def np_loadtxt_def squeeze_def map_segments_def column_def
     segment_step_def nearest_channel_def np_argmin_def collect_def slice_bounds_def py_slice_def
     push_tie_def tie_init_def Let_def upt_rec)

subsection \<open>The extracted slices\<close>

text \<open>
  The upper bound of a slice is one more than the recorded \<open>i1\<close> exactly when the range
  is the last one or the next range does not start at \<open>i1\<close>.
\<close>

lemma slice_bounds_rule:
  assumes "i < length ranges"
  shows "slice_bounds ranges i =
     (fst (ranges ! i),
      snd (ranges ! i) + (if Suc i = length ranges \<or> fst (ranges ! Suc i) \<noteq> snd (ranges ! i) then 1 else 0))"
  using assms by (auto simp: slice_bounds_def Let_def)


text \<open>
  The two loops, run on a table of one row whose distances map to the channels 10 and 50,
  extract the 41 channels 10, ..., 50 and produce the tie indices 0 and 40.
\<close>

lemma py_slice_nth:
  assumes "i1 \<le> length xs"
  shows "map f (py_slice xs i0 i1) = map (\<lambda>k. f (xs ! k)) [i0..<i1]"
proof (rule nth_equalityI)
  show "length (map f (py_slice xs i0 i1)) = length (map (\<lambda>k. f (xs ! k)) [i0..<i1])"
    using assms by (simp add: py_slice_def)
next
  fix i assume "i < length (map f (py_slice xs i0 i1))"
  then have "i < i1 - i0" using assms by (simp add: py_slice_def)
  then show "map f (py_slice xs i0 i1) ! i = map (\<lambda>k. f (xs ! k)) [i0..<i1] ! i"
    using assms by (simp add: py_slice_def add.commute)
qed

lemma single_segment_table:
  assumes "nearest_channel (map fst da) (row ! 2) = Inr 10"
    "nearest_channel (map fst da) (row ! 5) = Inr 50" "6 \<le> length row"
  shows "map_sum id m_data (map_segments da (Arr2 [row])) = Inr (map (\<lambda>k. snd (da ! k)) [10..<51])"
    and "map_sum id m_tie_indices (map_segments da (Arr2 [row])) = Inr [0, 40]"
proof -
  have len: "50 < length da"
    using np_argmin_spec [of "map (\<lambda>c. \<bar>c - row ! 5\<bar>) (map fst da)" 50] assms(2)
    by (simp add: nearest_channel_def)
  have cols: "column (Arr2 [row]) k = Inr [row ! k]" if "k < 6" for k
    using that assms(3) by (simp add: column_def)
  have sl: "map snd (py_slice da 10 51) = map (\<lambda>k. snd (da ! k)) [10..<51]"
    using len by (intro py_slice_nth) simp
  have res: "map_segments da (Arr2 [row]) =
      Inr \<lparr>m_data = map snd (py_slice da 10 51), m_tie_indices = [0, 40],
           m_tie_distances = [row ! 2, row ! 5], m_tie_lat = [row ! 1, row ! 4],
           m_tie_lon = [row ! 0, row ! 3]\<rparr>"
    using assms(1,2)
    by (simp add: map_segments_def cols segment_step_def collect_def slice_bounds_def
        push_tie_def tie_init_def Let_def)
  show "map_sum id m_data (map_segments da (Arr2 [row])) = Inr (map (\<lambda>k. snd (da ! k)) [10..<51])"
    using res sl by simp
  show "map_sum id m_tie_indices (map_segments da (Arr2 [row])) = Inr [0, 40]"
    using res by simp
qed

lemma single_segment_table_channels:
  "length (map (\<lambda>k. snd (da ! k)) [10..<51]) = 41 \<and> last (map (\<lambda>k. snd (da ! k)) [10..<51]) = snd (da ! 50)"
proof -
  have "[10..<51] = [10..<50] @ [50::nat]" by (simp add: upt_rec)
  then show ?thesis by simp
qed


lemma nearest_60:
  "nearest_channel (map fst (map (\<lambda>k. (10 * real k, k)) [0..<60])) 100 = Inr 10"
  "nearest_channel (map fst (map (\<lambda>k. (10 * real k, k)) [0..<60])) 500 = Inr 50"
  by (simp_all add: nearest_channel_def np_argmin_def upt_rec)

text \<open>A file with a single row never reaches the loops.\<close>

lemma apply_mapping_one_row:
  assumes "fs ''good_segments.txt'' = Some [row]"
  shows "apply_mapping fs da name = Inl IndexError"
  using assms
  by (cases "row = []") (simp_all add: apply_mapping_def np_loadtxt_def squeeze_def map_segments_def column_def)


text \<open>
  Claim C3 says that for a single-segment file whose distances map to the raw channels
  10 and 50 the output has 41 channels. On such a file, here the row
  \<open>0 0 100 1 1 500\<close> over 60 channels spaced by 10, \<open>numpy.loadtxt\<close> returns the
  one-dimensional array of the six numbers and \<open>tmp[:,0]\<close> raises \<open>IndexError\<close>:
  \<open>apply_mapping\<close> returns no array at all.
\<close>

theorem apply_mapping_single_row_raises:
  "apply_mapping (fs_of [[0, 0, 100, 1, 1, 500]]) (map (\<lambda>k. (10 * real k, k)) [0..<60]) ''good_segments.txt''
     = Inl IndexError
   \<and> np_loadtxt (fs_of [[0, 0, 100, 1, 1, 500]]) ''good_segments.txt'' = Inr (Arr1 [0, 0, 100, 1, 1, 500])"
  by (simp add: apply_mapping_def fs_of_def np_loadtxt_def squeeze_def map_segments_def column_def)

section \<open>Properties of the HVSR driver\<close>

subsection \<open>The parameter file\<close>

lemma emit_simps [simp]:
  "emit s (Inr t) = Inr (s @ t)" "emit s (Inl e) = Inl e"
  by (simp_all add: emit_def)

lemma emit_Nil [simp]: "emit [] r = r"
  by (cases r) simp_all

lemma emit_emit [simp]: "emit a (emit b r) = emit (a @ b) r"
  by (cases r) simp_all

lemma emit_eq_Inr: "emit s r = Inr t \<longleftrightarrow> (\<exists>u. r = Inr u \<and> t = s @ u)"
  by (cases r) auto

lemma format_scan_append:
  "format_scan kw m l = Inr t \<Longrightarrow> format_scan kw m (l @ rest) = emit t (format_scan kw None rest)"
proof (induction kw m l arbitrary: t rule: format_scan.induct)
  case (1 kw)
  then show ?case by simp
next
  case (2 kw name)
  then show ?case by simp
next
  case (3 kw c cs)
  show ?case
  proof (cases "c = CHR ''{''")
    case open_brace: True
    show ?thesis
    proof (cases cs)
      case Nil
      with open_brace "3.prems" show ?thesis by simp
    next
      case (Cons d r)
      show ?thesis
      proof (cases "d = CHR ''{''")
        case True
        with open_brace Cons "3.prems" obtain u where
          u: "format_scan kw None r = Inr u" and t: "t = ''{'' @ u"
          by (auto simp: emit_eq_Inr)
        from "3.IH"(1) [OF open_brace Cons True u]
        have "format_scan kw None (r @ rest) = emit u (format_scan kw None rest)" .
        with open_brace Cons True t show ?thesis by simp
      next
        case False
        with open_brace Cons "3.prems" have "format_scan kw (Some []) cs = Inr t" by simp
        from "3.IH"(2) [OF open_brace Cons False this]
        have "format_scan kw (Some []) (cs @ rest) = emit t (format_scan kw None rest)" .
        with open_brace Cons False show ?thesis by simp
      qed
    qed
  next
    case no_open: False
    show ?thesis
    proof (cases "c = CHR ''}''")
      case close_brace: True
      show ?thesis
      proof (cases cs)
        case Nil
        with no_open close_brace "3.prems" show ?thesis by simp
      next
        case (Cons d r)
        show ?thesis
        proof (cases "d = CHR ''}''")
          case True
          with no_open close_brace Cons "3.prems" obtain u where
            u: "format_scan kw None r = Inr u" and t: "t = ''}'' @ u"
            by (auto simp: emit_eq_Inr)
          from "3.IH"(3) [OF no_open close_brace Cons True u]
          have "format_scan kw None (r @ rest) = emit u (format_scan kw None rest)" .
          with no_open close_brace Cons True t show ?thesis by simp
        next
          case False
          with no_open close_brace Cons "3.prems" show ?thesis by simp
        qed
      qed
    next
      case False
      with no_open "3.prems" obtain u where
        u: "format_scan kw None cs = Inr u" and t: "t = [c] @ u"
        by (auto simp: emit_eq_Inr)
      from "3.IH"(4) [OF no_open False u]
      have "format_scan kw None (cs @ rest) = emit u (format_scan kw None rest)" .
      with no_open False t show ?thesis by simp
    qed
  qed
next
  case (4 kw name c cs)
  show ?case
  proof (cases "c = CHR ''}''")
    case True
    show ?thesis
    proof (cases "get_field kw name")
      case (Inl e)
      with True "4.prems" show ?thesis by simp
    next
      case (Inr v)
      with True "4.prems" obtain u where
        u: "format_scan kw None cs = Inr u" and t: "t = v @ u"
        by (auto simp: emit_eq_Inr)
      from "4.IH"(1) [OF True Inr u]
      have "format_scan kw None (cs @ rest) = emit u (format_scan kw None rest)" .
      with True Inr t show ?thesis by simp
    qed
  next
    case False
    with "4.prems" have "format_scan kw (Some (name @ [c])) cs = Inr t" by simp
    from "4.IH"(2) [OF False this]
    have "format_scan kw (Some (name @ [c])) (cs @ rest) = emit t (format_scan kw None rest)" .
    with False show ?thesis by simp
  qed
qed

lemma format_lines:
  assumes "list_all2 (\<lambda>l t. format_scan kw None (l @ [CHR 0x0A]) = Inr (t @ [CHR 0x0A])) ls ts"
  shows "format_scan kw None (concat (map (\<lambda>l. l @ [CHR 0x0A]) ls))
       = Inr (concat (map (\<lambda>l. l @ [CHR 0x0A]) ts))"
  using assms
proof (induction ls ts rule: list_all2_induct)
  case Nil
  then show ?case by simp
next
  case (Cons l ls t ts)
  have "format_scan kw None ((l @ [CHR 0x0A]) @ concat (map (\<lambda>l. l @ [CHR 0x0A]) ls))
      = emit (t @ [CHR 0x0A]) (format_scan kw None (concat (map (\<lambda>l. l @ [CHR 0x0A]) ls)))"
    using Cons.hyps(1) by (rule format_scan_append)
  with Cons.IH show ?case by simp
qed

lemma format_params_text:
  "format_params cfg tStart tEnd =
     Inr (concat (map (\<lambda>l. l @ [CHR 0x0A]) (rendered_lines cfg tStart tEnd)))"
  unfolding format_params_def py_format_def get_paramString_def
  by (rule format_lines)
     (simp add: template_lines_def rendered_lines_def get_field_def threshold_def
        horizontals_method_def azimuth_def rej_min_freq_def rej_max_freq_def rej_stdev_def
        rej_it_def)

lemma split_on_line:
  "sep \<notin> set l \<Longrightarrow> split_on sep (l @ sep # rest) = l # split_on sep rest"
  by (induction l) auto

lemma lines_of_concat:
  assumes "list_all (\<lambda>t. CHR 0x0A \<notin> set t) ts"
  shows "lines_of (concat (map (\<lambda>l. l @ [CHR 0x0A]) ts)) = ts @ [[]]"
  using assms
proof (induction ts)
  case Nil
  then show ?case by (simp add: lines_of_def)
next
  case (Cons t ts)
  then have "split_on (CHR 0x0A) (t @ CHR 0x0A # concat (map (\<lambda>l. l @ [CHR 0x0A]) ts))
      = t # split_on (CHR 0x0A) (concat (map (\<lambda>l. l @ [CHR 0x0A]) ts))"
    by (intro split_on_line) simp
  with Cons show ?case by (simp add: lines_of_def)
qed

lemma template_lines_of: "lines_of get_paramString = template_lines @ [[]]"
  unfolding get_paramString_def
  by (rule lines_of_concat) (simp add: template_lines_def)

lemma default_rendered_lines:
  "lines_of (concat (map (\<lambda>l. l @ [CHR 0x0A])
       (rendered_lines default_config ''20230101120000.00'' ''20230101130000.00'')))
   = rendered_lines default_config ''20230101120000.00'' ''20230101130000.00'' @ [[]]"
  by (rule lines_of_concat)
     (simp add: rendered_lines_def default_config_def nat_digits.simps threshold_def
        horizontals_method_def azimuth_def rej_min_freq_def rej_max_freq_def rej_stdev_def
        rej_it_def)


text \<open>
  Claim C5. Formatting the template is a function of the parameter values alone: for
  every configuration and pair of time stamps the call succeeds and yields the lines
  \<open>rendered_lines\<close>, each followed by a newline. For \<open>winLen = 60\<close>, \<open>KO = 0.2\<close> and
  the other documented values the text has the lines \<open>WINDOW_MIN_LENGTH(s)=60\<close>,
  \<open>WINDOW_MAX_LENGTH(s)=60\<close> and \<open>SMOOTHING_WIDTH=0.2\<close>, and the first line of the
  template is \<open>PARAMETERS_VERSION=1\<close> followed by four spaces.
\<close>

theorem get_paramString_format:
  "format_params cfg tStart tEnd =
     Inr (concat (map (\<lambda>l. l @ [CHR 0x0A]) (rendered_lines cfg tStart tEnd)))
   \<and> (case format_params default_config ''20230101120000.00'' ''20230101130000.00'' of
         Inl e \<Rightarrow> False
       | Inr text \<Rightarrow> ''WINDOW_MIN_LENGTH(s)=60'' \<in> set (lines_of text)
            \<and> ''WINDOW_MAX_LENGTH(s)=60'' \<in> set (lines_of text)
            \<and> ''SMOOTHING_WIDTH=0.2'' \<in> set (lines_of text))
   \<and> hd (lines_of get_paramString) = ''PARAMETERS_VERSION=1    ''"
proof -
  have "''WINDOW_MIN_LENGTH(s)=60'' \<in> set (rendered_lines default_config ''20230101120000.00'' ''20230101130000.00'')"
    "''WINDOW_MAX_LENGTH(s)=60'' \<in> set (rendered_lines default_config ''20230101120000.00'' ''20230101130000.00'')"
    "''SMOOTHING_WIDTH=0.2'' \<in> set (rendered_lines default_config ''20230101120000.00'' ''20230101130000.00'')"
    by (simp_all add: rendered_lines_def default_config_def nat_digits.simps)
  moreover have "hd (lines_of get_paramString) = ''PARAMETERS_VERSION=1    ''"
    by (simp add: template_lines_of template_lines_def)
  ultimately show ?thesis
    by (simp add: format_params_text default_rendered_lines)
qed

subsection \<open>The processing windows\<close>


lemma np_arange_nth:
  "k < length (np_arange start stop step) \<Longrightarrow> np_arange start stop step ! k = start + real k * step"
  by (simp add: np_arange_def)


lemma np_arange_in_range:
  assumes "0 < step" "k < length (np_arange start stop step)"
  shows "np_arange start stop step ! k < stop"
proof -
  from assms(2) have "int k < \<lceil>(stop - start) / step\<rceil>"
    by (simp add: np_arange_def)
  then have "real k < (stop - start) / step"
    by (simp add: less_ceiling_iff)
  then have "real k * step < stop - start"
    using assms(1) by (simp add: pos_less_divide_eq)
  then show ?thesis using assms(2) by (simp add: np_arange_nth)
qed

lemma window_pass_no_raise:
  assumes "\<forall>w j. snd (window_effects env w j) = None"
  shows "snd (window_pass env cfg node_ID wfile lbl w time) = None"
  using assms by (simp add: window_pass_def Let_def format_params_text)


lemma window_loop_no_raise:
  assumes "\<forall>w j. snd (window_effects env w j) = None"
  shows "snd (snd (window_loop env cfg node_ID wfile lbl ts w)) = None"
proof (induction ts arbitrary: w)
  case Nil
  then show ?case by simp
next
  case (Cons t ts)
  obtain w1 r1 where p: "window_pass env cfg node_ID wfile lbl w t = (w1, r1)"
    by (cases "window_pass env cfg node_ID wfile lbl w t") auto
  with window_pass_no_raise [OF assms, of cfg node_ID wfile lbl w t] have r1: "r1 = None" by simp
  obtain w2 b2 r2 where l: "window_loop env cfg node_ID wfile lbl ts w1 = (w2, b2, r2)"
    by (cases "window_loop env cfg node_ID wfile lbl ts w1") auto
  with Cons.IH [of w1] have "r2 = None" by simp
  with p r1 l show ?case by simp
qed

lemma run_HV_read:
  assumes "obspy_read env w wfile = Inr tr" "process_len cfg \<noteq> 0"
  shows "run_HV env cfg node_ID w wfile =
         window_loop env cfg node_ID wfile (network tr @ ''_'' @ station tr)
           (np_arange (starttime tr) (endtime tr) (real_of_int (process_len cfg))) w"
  using assms by (simp add: run_HV_def Let_def)

lemma run_HV_no_raise:
  assumes "obspy_read env w wfile = Inr tr" "process_len cfg \<noteq> 0"
    "\<forall>w j. snd (window_effects env w j) = None"
  shows "snd (snd (run_HV env cfg node_ID w wfile)) = None"
  using run_HV_read [OF assms(1,2)] window_loop_no_raise [OF assms(3)] by simp

lemma run_HV_read_fails:
  assumes "obspy_read env w wfile = Inl e"
  shows "run_HV env cfg node_ID w wfile = (w, [], Some e)"
  using assms by (simp add: run_HV_def)


text \<open>
  Outside the theorem's hypotheses: a \<open>process_len\<close> of 0 raises before the loop, and
  a negative one leaves no window.
\<close>

lemma run_HV_zero_process_len:
  assumes "obspy_read env w wfile = Inr tr" "process_len cfg = 0"
  shows "run_HV env cfg node_ID w wfile = (w, [], Some ZeroDivisionError)"
  using assms by (simp add: run_HV_def Let_def)

lemma np_arange_negative_step:
  assumes "step < 0" "start \<le> stop"
  shows "np_arange start stop step = []"
proof -
  have "(stop - start) / step \<le> 0"
    using assms by (simp add: divide_nonneg_neg)
  then have "\<lceil>(stop - start) / step\<rceil> \<le> 0"
    by (simp add: ceiling_le_iff)
  then show ?thesis by (simp add: np_arange_def)
qed




subsection \<open>The main loop\<close>

lemma file_loop_step_raises:
  assumes "derive_node_ID file = Inr node_ID"
    "run_HV env cfg node_ID (world d) (os_path_join directory file) = (w', begun, Some e)"
  shows "file_loop env cfg (file # rest) d =
         file_loop env cfg rest
           (d\<lparr>printed := printed d @ [os_path_join directory file],
              attempted := attempted d @ [os_path_join directory file],
              world := w'\<rparr>)"
  using assms by (simp add: Let_def)

lemma file_loop_step_returns:
  assumes "derive_node_ID file = Inr node_ID"
    "run_HV env cfg node_ID (world d) (os_path_join directory file) = (w', begun, None)"
  shows "file_loop env cfg (file # rest) d =
         file_loop env cfg rest
           (d\<lparr>printed := printed d @ [os_path_join directory file],
              attempted := attempted d @ [os_path_join directory file],
              world := w',
              completed := completed d @ [os_path_join directory file]\<rparr>)"
  using assms by (simp add: Let_def)

lemma file_loop_all:
  assumes "\<forall>f\<in>set files. \<exists>n. derive_node_ID f = Inr n"
  shows "attempted (file_loop env cfg files d) = attempted d @ map (os_path_join directory) files
       \<and> printed (file_loop env cfg files d)
           = printed d @ map (os_path_join directory) files @ [''Job Done'']
       \<and> uncaught (file_loop env cfg files d) = uncaught d
       \<and> ((\<forall>f\<in>set files. \<forall>n w'. derive_node_ID f = Inr n \<longrightarrow>
              (snd (snd (run_HV env cfg n w' (os_path_join directory f))) = None) = ok f)
            \<longrightarrow> completed (file_loop env cfg files d)
                = completed d @ map (os_path_join directory) (filter ok files))"
  using assms
proof (induction files arbitrary: d)
  case Nil
  then show ?case by simp
next
  case (Cons f0 rest)
  from Cons.prems obtain node_ID where id: "derive_node_ID f0 = Inr node_ID" by auto
  from Cons.prems have rest: "\<forall>f\<in>set rest. \<exists>n. derive_node_ID f = Inr n" by simp
  let ?wf = "os_path_join directory f0"
  let ?H = "\<lambda>fs. \<forall>f\<in>set fs. \<forall>n w'. derive_node_ID f = Inr n \<longrightarrow>
              (snd (snd (run_HV env cfg n w' (os_path_join directory f))) = None) = ok f"
  obtain w' begun r where run: "run_HV env cfg node_ID (world d) ?wf = (w', begun, r)"
    by (cases "run_HV env cfg node_ID (world d) ?wf") auto
  have okf: "ok f0 \<longleftrightarrow> r = None" if "?H (f0 # rest)"
  proof -
    from that id have "(snd (snd (run_HV env cfg node_ID (world d) ?wf)) = None) = ok f0"
      by simp
    with run show ?thesis by simp
  qed
  have Hrest: "?H rest" if "?H (f0 # rest)" using that by simp
  define d' where "d' = (case r of
      None \<Rightarrow> d\<lparr>printed := printed d @ [?wf], attempted := attempted d @ [?wf], world := w',
                completed := completed d @ [?wf]\<rparr>
    | Some e \<Rightarrow> d\<lparr>printed := printed d @ [?wf], attempted := attempted d @ [?wf], world := w'\<rparr>)"
  have step: "file_loop env cfg (f0 # rest) d = file_loop env cfg rest d'"
    using id run by (cases r) (simp_all add: Let_def d'_def)
  have fields: "attempted d' = attempted d @ [?wf]" "printed d' = printed d @ [?wf]"
    "uncaught d' = uncaught d"
    "completed d' = (if r = None then completed d @ [?wf] else completed d)"
    by (cases r; simp add: d'_def)+
  note ih = Cons.IH [OF rest, of d']
  have a: "attempted (file_loop env cfg (f0 # rest) d)
      = attempted d @ map (os_path_join directory) (f0 # rest)"
    unfolding step using ih fields by simp
  have p: "printed (file_loop env cfg (f0 # rest) d)
      = printed d @ map (os_path_join directory) (f0 # rest) @ [''Job Done'']"
    unfolding step using ih fields by simp
  have u: "uncaught (file_loop env cfg (f0 # rest) d) = uncaught d"
    unfolding step using ih fields by simp
  have c: "completed (file_loop env cfg (f0 # rest) d)
      = completed d @ map (os_path_join directory) (filter ok (f0 # rest))" if h: "?H (f0 # rest)"
  proof -
    from ih Hrest [OF h]
    have "completed (file_loop env cfg rest d')
        = completed d' @ map (os_path_join directory) (filter ok rest)" by blast
    then show ?thesis unfolding step using fields okf [OF h] by simp
  qed
  from a p u c show ?case by blast
qed

lemma file_loop_no_node_ID:
  assumes "derive_node_ID file = Inl e"
  shows "file_loop env cfg (file # rest) d = d\<lparr>uncaught := Some e\<rparr>"
  using assms by simp


text \<open>A name without a dot has no \<open>node_ID\<close>: the program ends there, before \<open>Job Done\<close>.\<close>

lemma derive_node_ID_no_dot: "derive_node_ID ''abcdefghijklm*op'' = Inl IndexError"
  by (simp add: derive_node_ID_def str_pair_def os_path_split_def py_repr_def repr_char_def
      Let_def)

text \<open>
  Claim C6. When \<open>node_ID\<close> can be derived for every discovered file, so that every
  exception is raised inside \<open>run_HV\<close>, the main loop hands every file to \<open>run_HV\<close>
  in order, whatever \<open>run_HV\<close> raises, and then prints \<open>Job Done\<close>; no exception
  leaves the program. If \<open>ok\<close> tells for which files \<open>run_HV\<close> returns, the files
  processed to the end are exactly those.
\<close>

theorem main_program_continues:
  assumes "\<forall>f\<in>set files. \<exists>n. derive_node_ID f = Inr n"
  shows "attempted (main_program env cfg files w) = map (os_path_join directory) files
       \<and> printed (main_program env cfg files w)
           = map (os_path_join directory) files @ [''Job Done'']
       \<and> uncaught (main_program env cfg files w) = None
       \<and> ((\<forall>f\<in>set files. \<forall>n w'. derive_node_ID f = Inr n \<longrightarrow>
              (snd (snd (run_HV env cfg n w' (os_path_join directory f))) = None) = ok f)
            \<longrightarrow> completed (main_program env cfg files w)
                = map (os_path_join directory) (filter ok files))"
  using file_loop_all [OF assms, of env cfg
      "\<lparr>world = w, attempted = [], completed = [], printed = [], uncaught = None\<rparr>" ok]
  by (simp add: main_program_def)


text \<open>Three files of which the second cannot be read: the first and the third are processed.\<close>

lemma node_IDs:
  "derive_node_ID ''BE.UCCS..HHE.*.2025.060'' = Inr ''UCCS''"
  "derive_node_ID ''BE.UCCS..HHE.*.2025.061'' = Inr ''UCCS''"
  "derive_node_ID ''BE.UCCS..HHE.*.2025.062'' = Inr ''UCCS''"
  by (simp_all add: derive_node_ID_def str_pair_def os_path_split_def py_repr_def repr_char_def
      Let_def)

lemma joins:
  "os_path_join directory ''BE.UCCS..HHE.*.2025.060'' = ''Raw_Data/BE.UCCS..HHE.*.2025.060''"
  "os_path_join directory ''BE.UCCS..HHE.*.2025.061'' = ''Raw_Data/BE.UCCS..HHE.*.2025.061''"
  "os_path_join directory ''BE.UCCS..HHE.*.2025.062'' = ''Raw_Data/BE.UCCS..HHE.*.2025.062''"
  by (simp_all add: os_path_join_def directory_def)


theorem main_program_continues_witness:
  "attempted (main_program second_unreadable default_config
      [''BE.UCCS..HHE.*.2025.060'', ''BE.UCCS..HHE.*.2025.061'', ''BE.UCCS..HHE.*.2025.062''] ())
     = [''Raw_Data/BE.UCCS..HHE.*.2025.060'', ''Raw_Data/BE.UCCS..HHE.*.2025.061'',
        ''Raw_Data/BE.UCCS..HHE.*.2025.062'']
   \<and> completed (main_program second_unreadable default_config
      [''BE.UCCS..HHE.*.2025.060'', ''BE.UCCS..HHE.*.2025.061'', ''BE.UCCS..HHE.*.2025.062''] ())
     = [''Raw_Data/BE.UCCS..HHE.*.2025.060'', ''Raw_Data/BE.UCCS..HHE.*.2025.062'']
   \<and> last (printed (main_program second_unreadable default_config
      [''BE.UCCS..HHE.*.2025.060'', ''BE.UCCS..HHE.*.2025.061'', ''BE.UCCS..HHE.*.2025.062''] ()))
     = ''Job Done''
   \<and> uncaught (main_program second_unreadable default_config
      [''BE.UCCS..HHE.*.2025.060'', ''BE.UCCS..HHE.*.2025.061'', ''BE.UCCS..HHE.*.2025.062''] ())
     = None"
proof -
  let ?files = "[''BE.UCCS..HHE.*.2025.060'', ''BE.UCCS..HHE.*.2025.061'', ''BE.UCCS..HHE.*.2025.062'']"
  let ?ok = "\<lambda>f. f \<noteq> ''BE.UCCS..HHE.*.2025.061''"
  have ids: "\<forall>f\<in>set ?files. \<exists>n. derive_node_ID f = Inr n"
    by (simp add: node_IDs)
  have eff: "\<forall>w j. snd (window_effects second_unreadable w j) = None"
    by (simp add: second_unreadable_def)
  have pl: "process_len default_config \<noteq> 0" by (simp add: default_config_def)
  have good: "snd (snd (run_HV second_unreadable default_config n w' wfile)) = None"
    if "wfile \<noteq> ''Raw_Data/BE.UCCS..HHE.*.2025.061''" for n w' wfile
  proof -
    have "obspy_read second_unreadable w' wfile
        = Inr \<lparr>network = ''BE'', station = ''UCCS'', starttime = 0, endtime = 7200\<rparr>"
      using that by (simp add: second_unreadable_def)
    then show ?thesis using pl eff by (rule run_HV_no_raise)
  qed
  have bad: "snd (snd (run_HV second_unreadable default_config n w' ''Raw_Data/BE.UCCS..HHE.*.2025.061''))
      = Some ReadError" for n w'
    by (simp add: run_HV_read_fails second_unreadable_def)
  have oks: "\<forall>f\<in>set ?files. \<forall>n w'. derive_node_ID f = Inr n \<longrightarrow>
      (snd (snd (run_HV second_unreadable default_config n w' (os_path_join directory f))) = None) = ?ok f"
    using good bad by (simp add: joins)
  from main_program_continues [OF ids, of second_unreadable default_config "()" ?ok] oks
  show ?thesis by (simp add: joins)
qed

end
